theory Spec2Isabelle
  imports Main "HOL-Library.AList" "HOL-Library.Char_ord" "HOL-Library.List_Lexorder"
    "HOL-Library.Product_Lexorder"
begin

section \<open>Strings of the request\<close>

text \<open>
  The handlers of \<^verbatim>\<open>src/functions/src/index.ts\<close> normalise the identifiers they
  receive with \<^verbatim>\<open>trim()\<close> and \<^verbatim>\<open>toLowerCase()\<close> and test them against three
  regular expressions. A string is a list of code units in the range 0 to 255, so a
  \<^typ>\<open>char\<close> is read through \<^term>\<open>of_char\<close> as its code.
\<close>

definition code :: "char \<Rightarrow> nat" where
  "code c = of_char c"

text \<open>White space of \<^verbatim>\<open>String.prototype.trim\<close> below code 256: tab, line feed,
  vertical tab, form feed, carriage return, space and the no-break space.\<close>

definition isSpace :: "char \<Rightarrow> bool" where
  "isSpace c = (code c \<in> {9, 10, 11, 12, 13, 32, 160})"

definition trim :: "string \<Rightarrow> string" where
  "trim s = rev (dropWhile isSpace (rev (dropWhile isSpace s)))"

text \<open>\<^verbatim>\<open>toLowerCase\<close>: the letters A to Z, and the upper-case letters of the
  Latin-1 block (0xC0 to 0xDE without the multiplication sign 0xD7), move up by 32.\<close>

definition lowerChar :: "char \<Rightarrow> char" where
  "lowerChar c =
     (if (65 \<le> code c \<and> code c \<le> 90) \<or> (192 \<le> code c \<and> code c \<le> 222 \<and> code c \<noteq> 215)
      then char_of (code c + 32) else c)"

definition toLowerCase :: "string \<Rightarrow> string" where
  "toLowerCase s = map lowerChar s"

definition isLower :: "char \<Rightarrow> bool" where
  "isLower c = (97 \<le> code c \<and> code c \<le> 122)"

definition isUpper :: "char \<Rightarrow> bool" where
  "isUpper c = (65 \<le> code c \<and> code c \<le> 90)"

definition isDigit :: "char \<Rightarrow> bool" where
  "isDigit c = (48 \<le> code c \<and> code c \<le> 57)"

text \<open>\<^verbatim>\<open>/^[a-z]{2,10}$/\<close>, the currency of \<^verbatim>\<open>getMarkets\<close>.\<close>

definition re_currency :: "string \<Rightarrow> bool" where
  "re_currency s = (2 \<le> length s \<and> length s \<le> 10 \<and> list_all isLower s)"

text \<open>\<^verbatim>\<open>/^[a-zA-Z0-9_-]{3,128}$/\<close>, the user identifier.\<close>

definition userIdChar :: "char \<Rightarrow> bool" where
  "userIdChar c = (isLower c \<or> isUpper c \<or> isDigit c \<or> c = CHR ''_'' \<or> c = CHR ''-'')"

definition re_userId :: "string \<Rightarrow> bool" where
  "re_userId s = (3 \<le> length s \<and> length s \<le> 128 \<and> list_all userIdChar s)"

text \<open>\<^verbatim>\<open>/^[a-z0-9-]{2,100}$/\<close>, the coin identifier.\<close>

definition coinIdChar :: "char \<Rightarrow> bool" where
  "coinIdChar c = (isLower c \<or> isDigit c \<or> c = CHR ''-'')"

definition re_coinId :: "string \<Rightarrow> bool" where
  "re_coinId s = (2 \<le> length s \<and> length s \<le> 100 \<and> list_all coinIdChar s)"

section \<open>Requests and responses\<close>

text \<open>
  A value found in the query or in the parsed body. The handlers only ask whether it is a
  string, whether it is truthy, and what \<^verbatim>\<open>String(v)\<close> gives. A value that is not a
  string (a number, a boolean, \<^verbatim>\<open>null\<close>, an array, an object) is therefore kept as
  these two answers when \<^verbatim>\<open>String(v)\<close> gives a string, and is \<open>JUnprintable\<close> when
  \<^verbatim>\<open>String(v)\<close> throws: an object whose \<^verbatim>\<open>toString\<close> and \<^verbatim>\<open>valueOf\<close> give no
  primitive, such as the parsed body property \<^verbatim>\<open>{"toString": null}\<close>. An object is
  truthy. An absent property (\<^verbatim>\<open>undefined\<close>) is \<^term>\<open>None\<close> of the lookup.
\<close>

datatype jsval = JStr string | JOther bool string | JUnprintable

text \<open>What a handler throws outside of its \<^verbatim>\<open>try\<close> block: nothing catches it, and
  the handler sends no envelope.\<close>

datatype error = TypeError

type_synonym props = "string \<rightharpoonup> jsval"

text \<open>\<^verbatim>\<open>req.body\<close> is \<^term>\<open>None\<close> when it is \<^verbatim>\<open>undefined\<close> or \<^verbatim>\<open>null\<close>; a body
  that is not an object has no property and is \<^term>\<open>Some Map.empty\<close>.\<close>

record request =
  "method" :: string
  query :: props
  body :: "props option"

typedecl json

datatype data =
    Null
  | Markets json
  | Coin json
  | UpstreamError string
  | Favorites "string list"
  | Favorited bool

record envelope =
  status :: nat
  message :: string
  data :: data

datatype payload = Empty | Json envelope

record response =
  headers :: "(string \<times> string) list"
  code_sent :: nat
  sent :: payload

definition setCorsHeaders :: "(string \<times> string) list" where
  "setCorsHeaders =
     [(''Access-Control-Allow-Origin'', ''*''),
      (''Access-Control-Allow-Methods'', ''GET, POST, OPTIONS''),
      (''Access-Control-Allow-Headers'', ''Content-Type'')]"

text \<open>\<^verbatim>\<open>res.status(204).send("")\<close>\<close>

definition preflight :: response where
  "preflight = \<lparr>headers = setCorsHeaders, code_sent = 204, sent = Empty\<rparr>"

text \<open>\<^verbatim>\<open>res.status(n).json({status: n, message: m, data: d})\<close>\<close>

definition reply :: "nat \<Rightarrow> string \<Rightarrow> data \<Rightarrow> response" where
  "reply n m d =
     \<lparr>headers = setCorsHeaders, code_sent = n,
      sent = Json \<lparr>status = n, message = m, data = d\<rparr>\<rparr>"

text \<open>A word of a message between single quotes, as in \<^verbatim>\<open>"Invalid or missing 'userId'"\<close>.\<close>

definition quoted :: "string \<Rightarrow> string" where
  "quoted w = CHR 0x27 # w @ [CHR 0x27]"

text \<open>\<^verbatim>\<open>req.body ?? {}\<close>\<close>

definition bodyOrEmpty :: "request \<Rightarrow> props" where
  "bodyOrEmpty req = (case body req of None \<Rightarrow> Map.empty | Some b \<Rightarrow> b)"

text \<open>\<^verbatim>\<open>typeof v === "string" ? v : ""\<close>\<close>

definition stringOrEmpty :: "jsval option \<Rightarrow> string" where
  "stringOrEmpty v = (case v of Some (JStr s) \<Rightarrow> s | _ \<Rightarrow> [])"

text \<open>\<^verbatim>\<open>String(v || d)\<close> for a string \<^verbatim>\<open>d\<close>: the default replaces every falsy
  value, the empty string among them; the conversion of a truthy value can throw.\<close>

definition truthy :: "jsval option \<Rightarrow> bool" where
  "truthy v =
     (case v of
        None \<Rightarrow> False
      | Some (JStr s) \<Rightarrow> s \<noteq> []
      | Some (JOther t r) \<Rightarrow> t
      | Some JUnprintable \<Rightarrow> True)"

definition String :: "jsval \<Rightarrow> error + string" where
  "String v = (case v of JStr s \<Rightarrow> Inr s | JOther t r \<Rightarrow> Inr r | JUnprintable \<Rightarrow> Inl TypeError)"

definition orDefault :: "jsval option \<Rightarrow> string \<Rightarrow> error + string" where
  "orDefault v d = (if truthy v then String (the v) else Inr d)"

section \<open>The document store\<close>

text \<open>
  Modelled from the spec: the transactional document store (its interface in section 6 of
  the specification, its timestamps in sections 3 and 9), which the handlers reach through
  \<^verbatim>\<open>firebase-admin/firestore\<close> and which is not among the sources. A document of
  \<^verbatim>\<open>users/{userId}/favorites/{coinId}\<close> is addressed by the pair of the two
  identifiers and holds the fields the toggle writes. The store keeps the clock that
  resolves \<^verbatim>\<open>FieldValue.serverTimestamp()\<close>; every commit takes the next instant.
\<close>

type_synonym docRef = "string \<times> string"

record favorite =
  coinId :: string
  createdAt :: nat

record store =
  docs :: "(docRef \<times> favorite) list"
  clock :: nat

definition emptyStore :: store where
  "emptyStore = \<lparr>docs = [], clock = 0\<rparr>"

text \<open>
  Modelled from the spec: the writes a transaction buffers and their commit, which are the
  store's. The writes are \<^verbatim>\<open>tx.delete(ref)\<close> and \<^verbatim>\<open>tx.set(ref, {coinId, createdAt:
  FieldValue.serverTimestamp()})\<close>; a commit applies them all, fills the time stamp in
  with the clock of the store and moves the clock on.
\<close>

datatype txWrite = TxDelete docRef | TxSet docRef string

fun applyWrite :: "nat \<Rightarrow> txWrite \<Rightarrow> (docRef \<times> favorite) list \<Rightarrow> (docRef \<times> favorite) list" where
  "applyWrite t (TxDelete r) ds = AList.delete r ds"
| "applyWrite t (TxSet r c) ds = AList.update r \<lparr>coinId = c, createdAt = t\<rparr> ds"

definition commit :: "txWrite list \<Rightarrow> store \<Rightarrow> store" where
  "commit ws s = \<lparr>docs = fold (applyWrite (clock s)) ws (docs s), clock = Suc (clock s)\<rparr>"

text \<open>
  Modelled from the spec: \<^verbatim>\<open>db.runTransaction\<close>. Each attempt runs the callback on
  what the store holds (\<^verbatim>\<open>tx.get\<close> is the lookup it is given) and tries to commit the
  buffered writes, all or none. An attempt commits, or is refused for a conflict and the
  next attempt is made, or finds the store unreachable. With no attempt left, or with the
  store unreachable, the call throws (\<^term>\<open>Inl\<close>) and nothing was written.
\<close>

datatype attempt = Commits | Conflict | Unreachable

fun runTransaction ::
  "attempt list \<Rightarrow> ((docRef \<rightharpoonup> favorite) \<Rightarrow> txWrite list \<times> 'a) \<Rightarrow> store \<Rightarrow> (unit + 'a) \<times> store" where
  "runTransaction [] f s = (Inl (), s)"
| "runTransaction (Commits # as) f s = (case f (map_of (docs s)) of (ws, r) \<Rightarrow> (Inr r, commit ws s))"
| "runTransaction (Conflict # as) f s = runTransaction as f s"
| "runTransaction (Unreachable # as) f s = (Inl (), s)"

text \<open>Whether a run of attempts ends in a commit.\<close>

fun commits :: "attempt list \<Rightarrow> bool" where
  "commits [] = False"
| "commits (Commits # as) = True"
| "commits (Conflict # as) = commits as"
| "commits (Unreachable # as) = False"

text \<open>
  Modelled from the spec: the query
  \<^verbatim>\<open>collection("users").doc(userId).collection("favorites").orderBy("createdAt", "desc").get()\<close>.
  It yields the documents of the user by descending \<^verbatim>\<open>createdAt\<close>; documents of equal
  time follow each other by descending document name.
\<close>

definition favoritesOf :: "store \<Rightarrow> string \<Rightarrow> (string \<times> favorite) list" where
  "favoritesOf s u = map (\<lambda>(r, f). (snd r, f)) (filter (\<lambda>(r, f). fst r = u) (docs s))"

definition orderByCreatedAtDesc :: "(string \<times> favorite) list \<Rightarrow> (string \<times> favorite) list" where
  "orderByCreatedAtDesc ds = rev (sort_key (\<lambda>(c, f). (createdAt f, c)) ds)"

section \<open>The favorite handlers\<close>

text \<open>The callback of the transaction in \<^verbatim>\<open>toggleFavorite\<close>.\<close>

definition toggleTx :: "docRef \<Rightarrow> string \<Rightarrow> (docRef \<rightharpoonup> favorite) \<Rightarrow> txWrite list \<times> bool" where
  "toggleTx favoriteRef c get =
     (case get favoriteRef of
        Some snap \<Rightarrow> ([TxDelete favoriteRef], False)
      | None \<Rightarrow> ([TxSet favoriteRef c], True))"

text \<open>\<^verbatim>\<open>toggleFavorite\<close>: the attempts are what the store does with the transaction of
  this request.\<close>

definition toggleFavorite :: "attempt list \<Rightarrow> request \<Rightarrow> store \<Rightarrow> response \<times> store" where
  "toggleFavorite atts req s =
     (if method req = ''OPTIONS'' then (preflight, s)
      else if method req \<noteq> ''POST'' then (reply 405 ''Method Not Allowed'' Null, s)
      else
        let b = bodyOrEmpty req;
            userId = trim (stringOrEmpty (b ''userId''));
            coinId = toLowerCase (trim (stringOrEmpty (b ''coinId'')))
        in if userId = [] \<or> \<not> re_userId userId
           then (reply 400 (''Invalid or missing '' @ quoted ''userId'') Null, s)
           else if coinId = [] \<or> \<not> re_coinId coinId
           then (reply 400 (''Invalid or missing '' @ quoted ''coinId'') Null, s)
           else
             (case runTransaction atts (toggleTx (userId, coinId) coinId) s of
                (Inr favorited, s') \<Rightarrow>
                  (reply 200 (if favorited then ''Added to favorites'' else ''Removed from favorites'')
                     (Favorited favorited), s')
              | (Inl err, s') \<Rightarrow> (reply 500 ''Failed to toggle favorite'' Null, s')))"

text \<open>\<^verbatim>\<open>getFavorites\<close>: the flag says whether the query reaches the store. The
  conversion \<^verbatim>\<open>String(userIdRaw)\<close> stands before the \<^verbatim>\<open>try\<close> block, so what it
  throws leaves the handler (\<^term>\<open>Inl\<close>).\<close>

definition getFavorites :: "bool \<Rightarrow> request \<Rightarrow> store \<Rightarrow> error + response" where
  "getFavorites up req s =
     (if method req = ''OPTIONS'' then Inr preflight
      else if method req \<noteq> ''GET'' \<and> method req \<noteq> ''POST''
      then Inr (reply 405 ''Method Not Allowed'' Null)
      else
        (case (if method req = ''GET'' then orDefault (query req ''userId'') []
               else orDefault (bodyOrEmpty req ''userId'') []) of
           Inl thrown \<Rightarrow> Inl thrown
         | Inr userIdRaw \<Rightarrow>
             let userId = trim userIdRaw
             in if userId = [] \<or> \<not> re_userId userId
                then Inr (reply 400 (''Invalid or missing '' @ quoted ''userId'') Null)
                else if up
                then Inr (reply 200 ''Favorites fetched successfully''
                       (Favorites (map fst (orderByCreatedAtDesc (favoritesOf s userId)))))
                else Inr (reply 500 ''Failed to fetch favorites'' Null)))"

section \<open>The proxy handlers\<close>

text \<open>\<^verbatim>\<open>encodeURIComponent\<close> on code units below 256: the unreserved characters stay,
  every other one is written as the percent-escaped bytes of its UTF-8 form.\<close>

definition unreserved :: "char \<Rightarrow> bool" where
  "unreserved c = (isLower c \<or> isUpper c \<or> isDigit c \<or> c \<in> set ''-_.!~*()'' \<or> c = CHR 0x27)"

definition hexDigit :: "nat \<Rightarrow> char" where
  "hexDigit n = ''0123456789ABCDEF'' ! (n mod 16)"

definition percent :: "nat \<Rightarrow> string" where
  "percent b = [CHR ''%'', hexDigit (b div 16), hexDigit b]"

definition encodeChar :: "char \<Rightarrow> string" where
  "encodeChar c =
     (if unreserved c then [c]
      else if code c < 128 then percent (code c)
      else percent (192 + code c div 64) @ percent (128 + code c mod 64))"

definition encodeURIComponent :: "string \<Rightarrow> string" where
  "encodeURIComponent s = concat (map encodeChar s)"

text \<open>
  What \<^verbatim>\<open>await fetch(url, ...)\<close> and the reading of the body come to: the promise
  rejects, or a response arrives with its status, its body as \<^verbatim>\<open>response.text()\<close>
  gives it and as \<^verbatim>\<open>response.json()\<close> gives it (\<^term>\<open>None\<close> when the body does
  not parse, and \<^verbatim>\<open>json()\<close> rejects).
\<close>

datatype fetched = Rejects | Responds nat string "json option"

text \<open>\<^verbatim>\<open>response.ok\<close>\<close>

definition ok :: "nat \<Rightarrow> bool" where
  "ok st = (200 \<le> st \<and> st \<le> 299)"

text \<open>The \<^verbatim>\<open>try\<close> block of \<^verbatim>\<open>getMarkets\<close> once the fetch has settled.\<close>

definition marketsFetched :: "fetched \<Rightarrow> response" where
  "marketsFetched r =
     (case r of
        Rejects \<Rightarrow> reply 500 ''Failed to fetch data'' Null
      | Responds st text parsed \<Rightarrow>
          if \<not> ok st then reply st ''Upstream CoinGecko error'' (UpstreamError text)
          else (case parsed of
                  None \<Rightarrow> reply 500 ''Failed to fetch data'' Null
                | Some d \<Rightarrow> reply 200 ''Markets fetched successfully'' (Markets d)))"

definition marketsUrl :: "string \<Rightarrow> string" where
  "marketsUrl currency =
     ''https://api.coingecko.com/api/v3/coins/markets?vs_currency='' @ encodeURIComponent currency"

text \<open>\<^verbatim>\<open>getMarkets\<close>: the conversion \<^verbatim>\<open>String(rawCurrency)\<close> stands before the
  \<^verbatim>\<open>try\<close> block as well.\<close>

definition getMarkets :: "(string \<Rightarrow> fetched) \<Rightarrow> request \<Rightarrow> error + response" where
  "getMarkets fetch req =
     (if method req = ''OPTIONS'' then Inr preflight
      else if method req \<noteq> ''GET'' then Inr (reply 405 ''Method Not Allowed'' Null)
      else
        (case orDefault (query req ''currency'') ''usd'' of
           Inl thrown \<Rightarrow> Inl thrown
         | Inr rawCurrency \<Rightarrow>
             let currency = toLowerCase rawCurrency
             in if \<not> re_currency currency
                then Inr (reply 400 ''Invalid currency parameter'' Null)
                else Inr (marketsFetched (fetch (marketsUrl currency)))))"

text \<open>The \<^verbatim>\<open>try\<close> block of \<^verbatim>\<open>getCoin\<close> once the fetch has settled.\<close>

definition coinFetched :: "fetched \<Rightarrow> response" where
  "coinFetched r =
     (case r of
        Rejects \<Rightarrow> reply 500 ''Failed to fetch data'' Null
      | Responds st text parsed \<Rightarrow>
          if \<not> ok st then reply st ''Upstream CoinGecko error'' (UpstreamError text)
          else (case parsed of
                  None \<Rightarrow> reply 500 ''Failed to fetch data'' Null
                | Some d \<Rightarrow> reply 200 ''Coin fetched successfully'' (Coin d)))"

definition coinUrl :: "string \<Rightarrow> string" where
  "coinUrl i = ''https://api.coingecko.com/api/v3/coins/'' @ encodeURIComponent i"

definition getCoin :: "(string \<Rightarrow> fetched) \<Rightarrow> request \<Rightarrow> response" where
  "getCoin fetch req =
     (if method req = ''OPTIONS'' then preflight
      else if method req \<noteq> ''POST'' then reply 405 ''Method Not Allowed'' Null
      else
        let b = bodyOrEmpty req;
            id = toLowerCase (trim (stringOrEmpty (b ''id'')))
        in if id = [] \<or> \<not> re_coinId id
           then reply 400 (''Invalid or missing '' @ quoted ''id'' @ '' in request body'') Null
           else coinFetched (fetch (coinUrl id)))"

section \<open>Sequences of requests\<close>

text \<open>A request to the two favorite handlers together with what the store does with it,
  and the store after a sequence of them, one after the other.\<close>

datatype operation = Toggle "attempt list" request | List bool request

fun step :: "operation \<Rightarrow> store \<Rightarrow> store" where
  "step (Toggle atts req) s = snd (toggleFavorite atts req s)"
| "step (List up req) s = s"

text \<open>A well-formed toggle request of user \<open>u\<close> for coin \<open>c\<close>: the identifiers the handler
  derives from the body are \<open>u\<close> and \<open>c\<close> and pass its two tests.\<close>

definition asksToggle :: "request \<Rightarrow> string \<Rightarrow> string \<Rightarrow> bool" where
  "asksToggle req u c =
     (method req = ''POST'' \<and>
      trim (stringOrEmpty (bodyOrEmpty req ''userId'')) = u \<and>
      toLowerCase (trim (stringOrEmpty (bodyOrEmpty req ''coinId''))) = c \<and>
      re_userId u \<and> re_coinId c)"

text \<open>A well-formed list request of user \<open>u\<close>.\<close>

definition asksList :: "request \<Rightarrow> string \<Rightarrow> bool" where
  "asksList req u =
     (re_userId u \<and>
      (if method req = ''GET'' then map_sum id trim (orDefault (query req ''userId'') []) = Inr u
       else method req = ''POST'' \<and>
            map_sum id trim (orDefault (bodyOrEmpty req ''userId'') []) = Inr u))"

text \<open>The invariant of the time stamps: every document was written before the present
  instant of the store.\<close>

definition stamped :: "store \<Rightarrow> bool" where
  "stamped s = list_all (\<lambda>(r, f). createdAt f < clock s) (docs s)"

text \<open>The requests a client sends: a JSON body with the two identifiers, and a query with
  the user.\<close>

definition toggleRequest :: "string \<Rightarrow> string \<Rightarrow> request" where
  "toggleRequest u c =
     \<lparr>method = ''POST'', query = Map.empty,
      body = Some [''userId'' \<mapsto> JStr u, ''coinId'' \<mapsto> JStr c]\<rparr>"

definition listRequest :: "string \<Rightarrow> request" where
  "listRequest u = \<lparr>method = ''GET'', query = [''userId'' \<mapsto> JStr u], body = None\<rparr>"

definition coinRequest :: "string \<Rightarrow> request" where
  "coinRequest i = \<lparr>method = ''POST'', query = Map.empty, body = Some [''id'' \<mapsto> JStr i]\<rparr>"

text \<open>The invariant of the data model: no two documents of the store have the same
  pair of user and coin.\<close>

definition atMostOnePerPair :: "store \<Rightarrow> bool" where
  "atMostOnePerPair s = distinct (map fst (docs s))"

text \<open>A store reached by two requests: user \<open>user1\<close> added \<open>bitcoin\<close>, then
  \<open>ethereum\<close>.\<close>

definition twoFavorites :: store where
  "twoFavorites =
     fold step [Toggle [Commits] (toggleRequest ''user1'' ''bitcoin''),
                Toggle [Commits] (toggleRequest ''user1'' ''ethereum'')] emptyStore"

text \<open>An upstream that answers one address with a status and a body that does not
  parse, and cannot be reached at any other address.\<close>

definition answering :: "string \<Rightarrow> nat \<Rightarrow> string \<Rightarrow> string \<Rightarrow> fetched" where
  "answering address st text url = (if url = address then Responds st text None else Rejects)"

definition getRequest :: "props \<Rightarrow> request" where
  "getRequest q = \<lparr>method = ''GET'', query = q, body = None\<rparr>"

section \<open>Normalised identifiers\<close>

text \<open>An identifier that passes its test holds no white space and, for a coin, no
  upper-case letter: trimming and lower-casing leave it as it is.\<close>

lemma coinIdChar_not_space: "coinIdChar c \<Longrightarrow> \<not> isSpace c"
  by (auto simp: coinIdChar_def isSpace_def isLower_def isDigit_def code_def)

lemma userIdChar_not_space: "userIdChar c \<Longrightarrow> \<not> isSpace c"
  by (auto simp: userIdChar_def isSpace_def isLower_def isUpper_def isDigit_def code_def)

lemma coinIdChar_lower: "coinIdChar c \<Longrightarrow> lowerChar c = c"
  by (auto simp: coinIdChar_def lowerChar_def isLower_def isDigit_def code_def)

lemma trim_no_space:
  assumes "list_all (\<lambda>c. \<not> isSpace c) s"
  shows "trim s = s"
proof -
  have keep: "dropWhile isSpace t = t" if "list_all (\<lambda>c. \<not> isSpace c) t" for t
    using that by (cases t) auto
  have "list_all (\<lambda>c. \<not> isSpace c) (rev s)"
    using assms by (simp add: list_all_iff)
  with assms show ?thesis
    by (simp add: trim_def keep)
qed

lemma trim_coinId: "re_coinId s \<Longrightarrow> trim s = s"
  by (rule trim_no_space) (auto simp: re_coinId_def list_all_iff coinIdChar_not_space)

lemma trim_userId: "re_userId s \<Longrightarrow> trim s = s"
  by (rule trim_no_space) (auto simp: re_userId_def list_all_iff userIdChar_not_space)

lemma lower_coinId: "re_coinId s \<Longrightarrow> toLowerCase s = s"
  by (auto simp: re_coinId_def toLowerCase_def list_all_iff coinIdChar_lower intro: map_idI)

text \<open>The empty string passes neither test.\<close>

lemma not_re_userId_Nil: "\<not> re_userId []"
  by (simp add: re_userId_def)

lemma not_re_coinId_Nil: "\<not> re_coinId []"
  by (simp add: re_coinId_def)

lemma lowerChar_idem: "lowerChar (lowerChar c) = lowerChar c"
  by (auto simp: lowerChar_def code_def)

lemma toLowerCase_idem: "toLowerCase (toLowerCase s) = toLowerCase s"
  by (simp add: toLowerCase_def lowerChar_idem)

text \<open>The definitions a concrete request is evaluated with.\<close>

lemmas string_eval =
  code_def isSpace_def trim_def lowerChar_def toLowerCase_def isLower_def isUpper_def
  isDigit_def re_currency_def userIdChar_def re_userId_def coinIdChar_def re_coinId_def
  char_of_eq_iff

lemmas request_eval =
  bodyOrEmpty_def stringOrEmpty_def truthy_def String_def orDefault_def asksToggle_def
  asksList_def toggleRequest_def listRequest_def coinRequest_def

lemmas handler_eval =
  toggleFavorite_def getFavorites_def Let_def reply_def

lemmas proxy_eval =
  getMarkets_def getCoin_def marketsFetched_def coinFetched_def marketsUrl_def coinUrl_def
  encodeURIComponent_def encodeChar_def unreserved_def ok_def answering_def getRequest_def
  Let_def reply_def

lemmas store_eval =
  emptyStore_def commit_def toggleTx_def favoritesOf_def orderByCreatedAtDesc_def
  less_eq_prod_def less_prod_def

section \<open>The transaction\<close>

lemma runTransaction_commits:
  "commits atts \<Longrightarrow>
   runTransaction atts f s = (Inr (snd (f (map_of (docs s)))), commit (fst (f (map_of (docs s)))) s)"
  by (induction atts rule: commits.induct) (auto split: prod.splits)

lemma runTransaction_fails:
  "\<not> commits atts \<Longrightarrow> runTransaction atts f s = (Inl (), s)"
  by (induction atts rule: commits.induct) auto

text \<open>A well-formed toggle request passes the method test and both validations.\<close>

lemma toggleFavorite_asks:
  "asksToggle req u c \<Longrightarrow>
   toggleFavorite atts req s =
     (case runTransaction atts (toggleTx (u, c) c) s of
        (Inr favorited, s') \<Rightarrow>
          (reply 200 (if favorited then ''Added to favorites'' else ''Removed from favorites'')
             (Favorited favorited), s')
      | (Inl err, s') \<Rightarrow> (reply 500 ''Failed to toggle favorite'' Null, s'))"
  by (auto simp: asksToggle_def toggleFavorite_def Let_def re_userId_def re_coinId_def)

lemma toggle_absent:
  assumes "asksToggle req u c" and "commits atts" and "map_of (docs s) (u, c) = None"
  shows "toggleFavorite atts req s =
    (reply 200 ''Added to favorites'' (Favorited True),
     \<lparr>docs = AList.update (u, c) \<lparr>coinId = c, createdAt = clock s\<rparr> (docs s),
      clock = Suc (clock s)\<rparr>)"
  using assms
  by (simp add: toggleFavorite_asks runTransaction_commits toggleTx_def commit_def)

lemma toggle_present:
  assumes "asksToggle req u c" and "commits atts" and "map_of (docs s) (u, c) = Some f"
  shows "toggleFavorite atts req s =
    (reply 200 ''Removed from favorites'' (Favorited False),
     \<lparr>docs = AList.delete (u, c) (docs s), clock = Suc (clock s)\<rparr>)"
  using assms
  by (simp add: toggleFavorite_asks runTransaction_commits toggleTx_def commit_def)

section \<open>The store after a toggle\<close>

lemma update_absent: "map_of ds k = None \<Longrightarrow> AList.update k v ds = ds @ [(k, v)]"
  by (induction ds) (auto split: if_splits)

lemma no_favorites_absent:
  assumes "favoritesOf s u = []"
  shows "map_of (docs s) (u, c) = None"
proof -
  have "\<forall>x \<in> set (docs s). \<not> (case x of (r, f) \<Rightarrow> fst r = u)"
    using assms by (simp add: favoritesOf_def filter_empty_conv)
  then have "(u, c) \<notin> fst ` set (docs s)"
    by force
  then show ?thesis
    by (simp add: map_of_eq_None_iff)
qed

lemma toggle_adds_last:
  assumes "asksToggle req u c" and "commits atts" and "map_of (docs s) (u, c) = None"
  shows "favoritesOf (snd (toggleFavorite atts req s)) u =
           favoritesOf s u @ [(c, \<lparr>coinId = c, createdAt = clock s\<rparr>)]"
    and "clock (snd (toggleFavorite atts req s)) = Suc (clock s)"
  using assms by (simp_all add: toggle_absent update_absent favoritesOf_def)

lemma toggle_adds_lookup:
  assumes "asksToggle req u c" and "commits atts" and "map_of (docs s) (u, c) = None"
  shows "map_of (docs (snd (toggleFavorite atts req s))) (u, c') =
           (if c' = c then Some \<lparr>coinId = c, createdAt = clock s\<rparr> else map_of (docs s) (u, c'))"
  using assms by (simp add: toggle_absent update_conv')

lemma toggle_keeps_invariant:
  assumes "atMostOnePerPair s"
  shows "atMostOnePerPair (snd (toggleFavorite atts req s))"
proof (cases "commits atts")
  case True
  with assms show ?thesis
    by (auto simp: toggleFavorite_def Let_def runTransaction_commits toggleTx_def commit_def
        atMostOnePerPair_def distinct_update distinct_delete split: option.splits)
next
  case False
  with assms show ?thesis
    by (auto simp: toggleFavorite_def Let_def runTransaction_fails)
qed

lemma step_keeps_invariant: "atMostOnePerPair s \<Longrightarrow> atMostOnePerPair (step op s)"
  by (cases op) (simp_all add: toggle_keeps_invariant)

lemma fold_step_keeps_invariant:
  "atMostOnePerPair s \<Longrightarrow> atMostOnePerPair (fold step ops s)"
  by (induction ops arbitrary: s) (simp_all add: step_keeps_invariant)

lemma listing_distinct:
  assumes "atMostOnePerPair s"
  shows "distinct (map fst (orderByCreatedAtDesc (favoritesOf s u)))"
proof -
  have "distinct (map fst ds) \<Longrightarrow>
        distinct (map fst (map (\<lambda>(r, f). (snd r, f)) (filter (\<lambda>(r, f). fst r = u) ds)))"
    for ds :: "(docRef \<times> favorite) list"
    by (induction ds) (auto simp: image_iff)
  with assms have "distinct (map fst (favoritesOf s u))"
    by (simp add: atMostOnePerPair_def favoritesOf_def)
  then show ?thesis
    by (simp add: orderByCreatedAtDesc_def distinct_map)
qed

text \<open>Every commit writes the present instant and moves the clock on, so the time stamps
  of a store stay before its clock.\<close>

lemma update_cases: "x \<in> set (AList.update k v al) \<Longrightarrow> x = (k, v) \<or> x \<in> set al"
  by (induction al) (auto split: if_splits)

lemma delete_subset: "x \<in> set (AList.delete k al) \<Longrightarrow> x \<in> set al"
  by (induction al) (auto split: if_splits)

lemma commit_stamped:
  assumes "stamped s"
  shows "stamped (commit (fst (toggleTx r c get)) s)"
proof (cases "get r")
  case None
  have "createdAt (snd x) < Suc (clock s)"
    if "x \<in> set (AList.update r \<lparr>coinId = c, createdAt = clock s\<rparr> (docs s))" for x
    using update_cases [OF that] assms by (auto simp: stamped_def list_all_iff)
  with None show ?thesis
    by (auto simp: toggleTx_def commit_def stamped_def list_all_iff)
next
  case (Some f)
  have "createdAt (snd x) < Suc (clock s)" if "x \<in> set (AList.delete r (docs s))" for x
    using delete_subset [OF that] assms by (auto simp: stamped_def list_all_iff)
  with Some show ?thesis
    by (auto simp: toggleTx_def commit_def stamped_def list_all_iff)
qed

lemma toggle_keeps_stamped:
  assumes "stamped s"
  shows "stamped (snd (toggleFavorite atts req s))"
proof (cases "commits atts")
  case True
  with assms show ?thesis
    by (simp add: toggleFavorite_def Let_def runTransaction_commits commit_stamped)
next
  case False
  with assms show ?thesis
    by (simp add: toggleFavorite_def Let_def runTransaction_fails)
qed

lemma step_keeps_stamped: "stamped s \<Longrightarrow> stamped (step op s)"
  by (cases op) (simp_all add: toggle_keeps_stamped)

lemma fold_step_keeps_stamped: "stamped s \<Longrightarrow> stamped (fold step ops s)"
  by (induction ops arbitrary: s) (simp_all add: step_keeps_stamped)

lemma stamped_lookup: "stamped s \<Longrightarrow> map_of (docs s) k = Some f \<Longrightarrow> createdAt f < clock s"
  by (auto simp: stamped_def list_all_iff dest: map_of_SomeD)

section \<open>The toggle and its answer\<close>

text \<open>
  Claim C1. For a well-formed toggle request whose transaction commits, the answer is
  200 with \<open>favorited = true\<close> exactly when the store held no entry for the pair of user
  and coin, and then the entry exists afterwards with the time of the store as its
  \<open>createdAt\<close>; it is \<open>favorited = false\<close> exactly when an entry was held, and then the
  entry is gone afterwards. No other entry changes.
\<close>

theorem toggle_reports_transition:
  assumes "asksToggle req u c" and "commits atts"
  shows "fst (toggleFavorite atts req s) =
           reply 200 (if map_of (docs s) (u, c) = None then ''Added to favorites''
                      else ''Removed from favorites'')
             (Favorited (map_of (docs s) (u, c) = None)) \<and>
         map_of (docs (snd (toggleFavorite atts req s))) =
           (if map_of (docs s) (u, c) = None
            then (map_of (docs s))((u, c) \<mapsto> \<lparr>coinId = c, createdAt = clock s\<rparr>)
            else (map_of (docs s))((u, c) := None))"
proof (cases "map_of (docs s) (u, c)")
  case None
  with assms show ?thesis
    by (simp add: toggle_absent update_conv')
next
  case (Some f)
  with assms show ?thesis
    by (simp add: toggle_present delete_conv')
qed

theorem toggle_reports_transition_witness:
  "asksToggle (toggleRequest ''user1'' ''bitcoin'') ''user1'' ''bitcoin'' \<and>
   commits [Conflict, Commits] \<and>
   fst (toggleFavorite [Conflict, Commits] (toggleRequest ''user1'' ''bitcoin'') emptyStore) =
     reply 200 ''Added to favorites'' (Favorited True) \<and>
   map_of (docs (snd (toggleFavorite [Conflict, Commits] (toggleRequest ''user1'' ''bitcoin'')
     emptyStore))) =
     [(''user1'', ''bitcoin'') \<mapsto> \<lparr>coinId = ''bitcoin'', createdAt = 0\<rparr>]"
proof -
  have a: "asksToggle (toggleRequest ''user1'' ''bitcoin'') ''user1'' ''bitcoin''"
    by (simp add: request_eval string_eval)
  have b: "commits [Conflict, Commits]"
    by simp
  show ?thesis
    using a b toggle_reports_transition [OF a b, of emptyStore]
    by (simp add: emptyStore_def)
qed

text \<open>
  Claim C7. When the transaction of a well-formed toggle request does not commit (the
  store is unreachable, or every attempt is refused), the answer is the envelope with
  status 500, the message \<open>Failed to toggle favorite\<close> and no data, and the store is
  exactly the store before the call.
\<close>

theorem toggle_failure_atomic:
  assumes "asksToggle req u c" and "\<not> commits atts"
  shows "toggleFavorite atts req s = (reply 500 ''Failed to toggle favorite'' Null, s)"
  using assms by (simp add: toggleFavorite_asks runTransaction_fails)

theorem toggle_failure_atomic_witness:
  "asksToggle (toggleRequest ''user1'' ''bitcoin'') ''user1'' ''bitcoin'' \<and>
   \<not> commits [Conflict, Conflict, Unreachable, Commits] \<and>
   toggleFavorite [Conflict, Conflict, Unreachable, Commits] (toggleRequest ''user1'' ''bitcoin'')
     \<lparr>docs = [((''user1'', ''bitcoin''), \<lparr>coinId = ''bitcoin'', createdAt = 4\<rparr>)], clock = 7\<rparr> =
     (\<lparr>headers = setCorsHeaders, code_sent = 500,
       sent = Json \<lparr>status = 500, message = ''Failed to toggle favorite'', data = Null\<rparr>\<rparr>,
      \<lparr>docs = [((''user1'', ''bitcoin''), \<lparr>coinId = ''bitcoin'', createdAt = 4\<rparr>)], clock = 7\<rparr>)"
proof -
  have a: "asksToggle (toggleRequest ''user1'' ''bitcoin'') ''user1'' ''bitcoin''"
    by (simp add: request_eval string_eval)
  have b: "\<not> commits [Conflict, Conflict, Unreachable, Commits]"
    by simp
  show ?thesis
    using a b toggle_failure_atomic [OF a b]
    by (simp add: reply_def)
qed

section \<open>The list of favorites\<close>

lemma getFavorites_asks:
  assumes "asksList req u"
  shows "getFavorites up req s =
     (if up then Inr (reply 200 ''Favorites fetched successfully''
                  (Favorites (map fst (orderByCreatedAtDesc (favoritesOf s u)))))
      else Inr (reply 500 ''Failed to fetch favorites'' Null))"
proof (cases "method req = ''GET''")
  case True
  with assms not_re_userId_Nil show ?thesis
    by (auto simp: asksList_def getFavorites_def Let_def map_sum_def split: sum.splits)
next
  case False
  with assms not_re_userId_Nil show ?thesis
    by (auto simp: asksList_def getFavorites_def Let_def map_sum_def split: sum.splits)
qed

lemma orderBy_three:
  "map fst (orderByCreatedAtDesc
           [(c1, \<lparr>coinId = c1, createdAt = t\<rparr>), (c2, \<lparr>coinId = c2, createdAt = Suc t\<rparr>),
            (c3, \<lparr>coinId = c3, createdAt = Suc (Suc t)\<rparr>)]) = [c3, c2, c1]"
  by (simp add: orderByCreatedAtDesc_def less_eq_prod_def)

lemma orderBy_descending:
  "sorted_wrt (\<lambda>a b. createdAt (snd b) \<le> createdAt (snd a)) (orderByCreatedAtDesc ds)"
proof -
  have "sorted (map (\<lambda>(c, f). (createdAt f, c)) (sort_key (\<lambda>(c, f). (createdAt f, c)) ds))"
    by (rule sorted_sort_key)
  then have "sorted_wrt (\<lambda>a b. createdAt (snd a) \<le> createdAt (snd b))
               (sort_key (\<lambda>(c, f). (createdAt f, c)) ds)"
    unfolding sorted_map
    by (rule sorted_wrt_mono_rel [rotated]) (auto simp: less_eq_prod_def)
  then show ?thesis
    by (simp add: orderByCreatedAtDesc_def sorted_wrt_rev)
qed

lemma three_added:
  assumes t1: "asksToggle r1 u c1" and t2: "asksToggle r2 u c2" and t3: "asksToggle r3 u c3"
    and m1: "commits a1" and m2: "commits a2" and m3: "commits a3"
    and d: "c1 \<noteq> c2" "c2 \<noteq> c3" "c1 \<noteq> c3" and e: "favoritesOf s u = []"
  shows "favoritesOf (fold step [Toggle a1 r1, Toggle a2 r2, Toggle a3 r3] s) u =
       [(c1, \<lparr>coinId = c1, createdAt = clock s\<rparr>),
        (c2, \<lparr>coinId = c2, createdAt = Suc (clock s)\<rparr>),
        (c3, \<lparr>coinId = c3, createdAt = Suc (Suc (clock s))\<rparr>)]"
proof -
  define s1 where "s1 = snd (toggleFavorite a1 r1 s)"
  define s2 where "s2 = snd (toggleFavorite a2 r2 s1)"
  define s3 where "s3 = snd (toggleFavorite a3 r3 s2)"
  have n0: "map_of (docs s) (u, c) = None" for c
    using e by (rule no_favorites_absent)
  have f1: "favoritesOf s1 u = [(c1, \<lparr>coinId = c1, createdAt = clock s\<rparr>)]"
    and k1: "clock s1 = Suc (clock s)"
    unfolding s1_def using toggle_adds_last [OF t1 m1 n0] e by simp_all
  have n1: "map_of (docs s1) (u, c2) = None" "map_of (docs s1) (u, c3) = None"
    unfolding s1_def using d n0 by (simp_all add: toggle_adds_lookup [OF t1 m1 n0])
  have f2: "favoritesOf s2 u = [(c1, \<lparr>coinId = c1, createdAt = clock s\<rparr>),
        (c2, \<lparr>coinId = c2, createdAt = Suc (clock s)\<rparr>)]"
    and k2: "clock s2 = Suc (Suc (clock s))"
    unfolding s2_def using toggle_adds_last [OF t2 m2 n1(1)] f1 k1 by simp_all
  have n2: "map_of (docs s2) (u, c3) = None"
    unfolding s2_def using d n1 by (simp add: toggle_adds_lookup [OF t2 m2 n1(1)])
  have f3: "favoritesOf s3 u = [(c1, \<lparr>coinId = c1, createdAt = clock s\<rparr>),
        (c2, \<lparr>coinId = c2, createdAt = Suc (clock s)\<rparr>),
        (c3, \<lparr>coinId = c3, createdAt = Suc (Suc (clock s))\<rparr>)]"
    unfolding s3_def using toggle_adds_last(1) [OF t3 m3 n2] f2 k2 by simp
  have "fold step [Toggle a1 r1, Toggle a2 r2, Toggle a3 r3] s = s3"
    by (simp add: s1_def s2_def s3_def)
  with f3 show ?thesis
    by simp
qed

text \<open>
  Claim C5. For a well-formed list request that reaches the store, the answer is 200 with
  the coin identifiers of exactly the documents of the user, by descending \<open>createdAt\<close>.
  After three coins are added one after the other to a user without favorites, the
  list is the third, the second, the first; and a user without favorites gets the
  empty list with status 200.
\<close>

theorem list_descending:
  "(asksList req u \<longrightarrow>
      (\<exists>fs. getFavorites True req s =
               Inr (reply 200 ''Favorites fetched successfully'' (Favorites (map fst fs))) \<and>
            set fs = set (favoritesOf s u) \<and> length fs = length (favoritesOf s u) \<and>
            sorted_wrt (\<lambda>a b. createdAt (snd b) \<le> createdAt (snd a)) fs)) \<and>
   (asksList req u \<and> favoritesOf s u = [] \<and>
    asksToggle r1 u c1 \<and> asksToggle r2 u c2 \<and> asksToggle r3 u c3 \<and>
    c1 \<noteq> c2 \<and> c2 \<noteq> c3 \<and> c1 \<noteq> c3 \<and> commits a1 \<and> commits a2 \<and> commits a3 \<longrightarrow>
      getFavorites True req (fold step [Toggle a1 r1, Toggle a2 r2, Toggle a3 r3] s) =
        Inr (reply 200 ''Favorites fetched successfully'' (Favorites [c3, c2, c1]))) \<and>
   (asksList req u \<and> favoritesOf s u = [] \<longrightarrow>
      getFavorites True req s = Inr (reply 200 ''Favorites fetched successfully'' (Favorites [])))"
proof (intro conjI impI)
  assume "asksList req u"
  then have "getFavorites True req s = Inr (reply 200 ''Favorites fetched successfully''
      (Favorites (map fst (orderByCreatedAtDesc (favoritesOf s u)))))"
    by (simp add: getFavorites_asks)
  moreover have "set (orderByCreatedAtDesc (favoritesOf s u)) = set (favoritesOf s u)"
    and "length (orderByCreatedAtDesc (favoritesOf s u)) = length (favoritesOf s u)"
    by (simp_all add: orderByCreatedAtDesc_def)
  ultimately show "\<exists>fs. getFavorites True req s =
               Inr (reply 200 ''Favorites fetched successfully'' (Favorites (map fst fs))) \<and>
            set fs = set (favoritesOf s u) \<and> length fs = length (favoritesOf s u) \<and>
            sorted_wrt (\<lambda>a b. createdAt (snd b) \<le> createdAt (snd a)) fs"
    using orderBy_descending by blast
next
  assume a: "asksList req u \<and> favoritesOf s u = [] \<and>
    asksToggle r1 u c1 \<and> asksToggle r2 u c2 \<and> asksToggle r3 u c3 \<and>
    c1 \<noteq> c2 \<and> c2 \<noteq> c3 \<and> c1 \<noteq> c3 \<and> commits a1 \<and> commits a2 \<and> commits a3"
  then have l: "asksList req u"
    by simp
  have "favoritesOf (fold step [Toggle a1 r1, Toggle a2 r2, Toggle a3 r3] s) u =
       [(c1, \<lparr>coinId = c1, createdAt = clock s\<rparr>),
        (c2, \<lparr>coinId = c2, createdAt = Suc (clock s)\<rparr>),
        (c3, \<lparr>coinId = c3, createdAt = Suc (Suc (clock s))\<rparr>)]"
    using a by (intro three_added) simp_all
  then show "getFavorites True req (fold step [Toggle a1 r1, Toggle a2 r2, Toggle a3 r3] s) =
        Inr (reply 200 ''Favorites fetched successfully'' (Favorites [c3, c2, c1]))"
    by (simp only: getFavorites_asks [OF l] orderBy_three if_True)
next
  assume a: "asksList req u \<and> favoritesOf s u = []"
  then have l: "asksList req u"
    by simp
  from a show "getFavorites True req s = Inr (reply 200 ''Favorites fetched successfully'' (Favorites []))"
    by (simp add: getFavorites_asks [OF l] orderByCreatedAtDesc_def)
qed

theorem list_descending_witness:
  "asksList (listRequest ''user1'') ''user1'' \<and> favoritesOf emptyStore ''user1'' = [] \<and>
   asksToggle (toggleRequest ''user1'' ''bitcoin'') ''user1'' ''bitcoin'' \<and>
   asksToggle (toggleRequest ''user1'' ''ethereum'') ''user1'' ''ethereum'' \<and>
   asksToggle (toggleRequest ''user1'' ''solana'') ''user1'' ''solana'' \<and>
   commits [Commits] \<and>
   getFavorites True (listRequest ''user1'')
     (fold step [Toggle [Commits] (toggleRequest ''user1'' ''bitcoin''),
                 Toggle [Commits] (toggleRequest ''user1'' ''ethereum''),
                 Toggle [Commits] (toggleRequest ''user1'' ''solana'')] emptyStore) =
     Inr (reply 200 ''Favorites fetched successfully'' (Favorites [''solana'', ''ethereum'', ''bitcoin''])) \<and>
   getFavorites True (listRequest ''user1'') emptyStore =
     Inr (reply 200 ''Favorites fetched successfully'' (Favorites []))"
proof -
  have l: "asksList (listRequest ''user1'') ''user1''"
    by (simp add: request_eval string_eval)
  have e: "favoritesOf emptyStore ''user1'' = []"
    by (simp add: store_eval)
  have t: "asksToggle (toggleRequest ''user1'' ''bitcoin'') ''user1'' ''bitcoin''"
    "asksToggle (toggleRequest ''user1'' ''ethereum'') ''user1'' ''ethereum''"
    "asksToggle (toggleRequest ''user1'' ''solana'') ''user1'' ''solana''"
    by (simp_all add: request_eval string_eval)
  have d: "''bitcoin'' \<noteq> ''ethereum''" "''ethereum'' \<noteq> ''solana''" "''bitcoin'' \<noteq> ''solana''"
    by simp_all
  have c: "commits [Commits]"
    by simp
  have A: "getFavorites True (listRequest ''user1'')
     (fold step [Toggle [Commits] (toggleRequest ''user1'' ''bitcoin''),
                 Toggle [Commits] (toggleRequest ''user1'' ''ethereum''),
                 Toggle [Commits] (toggleRequest ''user1'' ''solana'')] emptyStore) =
     Inr (reply 200 ''Favorites fetched successfully'' (Favorites [''solana'', ''ethereum'', ''bitcoin'']))"
    by (rule list_descending [where u = "''user1''", THEN conjunct2, THEN conjunct1, rule_format])
      (simp only: l e t c d simp_thms)
  have B: "getFavorites True (listRequest ''user1'') emptyStore =
     Inr (reply 200 ''Favorites fetched successfully'' (Favorites []))"
    by (rule list_descending [where u = "''user1''", THEN conjunct2, THEN conjunct2, rule_format])
      (simp only: l e simp_thms)
  show ?thesis
    by (simp only: l e t c A B simp_thms)
qed

section \<open>Two toggles in a row\<close>

lemma twoFavorites_eval:
  "twoFavorites =
     \<lparr>docs = [((''user1'', ''bitcoin''), \<lparr>coinId = ''bitcoin'', createdAt = 0\<rparr>),
              ((''user1'', ''ethereum''), \<lparr>coinId = ''ethereum'', createdAt = 1\<rparr>)],
      clock = 2\<rparr>"
  by (simp add: twoFavorites_def handler_eval request_eval string_eval store_eval)

text \<open>
  Claim C3, as stated, fails where the entry exists before the first call: the first
  toggle deletes it and the second creates it anew with the time of the second commit.
  In the store where \<open>user1\<close> added \<open>bitcoin\<close> and then \<open>ethereum\<close>, two toggles of
  \<open>bitcoin\<close> answer false and then true, but the entry of \<open>bitcoin\<close> has moved from time
  0 to time 3 and the list has changed from \<open>ethereum, bitcoin\<close> to
  \<open>bitcoin, ethereum\<close>.
\<close>

theorem toggle_twice_counterexample:
  "fst (toggleFavorite [Commits] (toggleRequest ''user1'' ''bitcoin'') twoFavorites) =
     reply 200 ''Removed from favorites'' (Favorited False) \<and>
   fst (toggleFavorite [Commits] (toggleRequest ''user1'' ''bitcoin'')
     (snd (toggleFavorite [Commits] (toggleRequest ''user1'' ''bitcoin'') twoFavorites))) =
     reply 200 ''Added to favorites'' (Favorited True) \<and>
   getFavorites True (listRequest ''user1'') twoFavorites =
     Inr (reply 200 ''Favorites fetched successfully'' (Favorites [''ethereum'', ''bitcoin''])) \<and>
   getFavorites True (listRequest ''user1'')
     (snd (toggleFavorite [Commits] (toggleRequest ''user1'' ''bitcoin'')
       (snd (toggleFavorite [Commits] (toggleRequest ''user1'' ''bitcoin'') twoFavorites)))) =
     Inr (reply 200 ''Favorites fetched successfully'' (Favorites [''bitcoin'', ''ethereum''])) \<and>
   map_of (docs twoFavorites) (''user1'', ''bitcoin'') =
     Some \<lparr>coinId = ''bitcoin'', createdAt = 0\<rparr> \<and>
   map_of (docs (snd (toggleFavorite [Commits] (toggleRequest ''user1'' ''bitcoin'')
       (snd (toggleFavorite [Commits] (toggleRequest ''user1'' ''bitcoin'') twoFavorites)))))
     (''user1'', ''bitcoin'') = Some \<lparr>coinId = ''bitcoin'', createdAt = 3\<rparr> \<and>
   docs (snd (toggleFavorite [Commits] (toggleRequest ''user1'' ''bitcoin'')
       (snd (toggleFavorite [Commits] (toggleRequest ''user1'' ''bitcoin'') twoFavorites)))) \<noteq>
     docs twoFavorites"
  by (simp add: twoFavorites_eval handler_eval request_eval string_eval store_eval)

text \<open>
  Claim C3, amended. Two toggles with the same well-formed request, one after the other
  and both committing: on a pair without an entry they answer true and then false and
  leave the documents of the store exactly as they were; on a pair with an entry they
  answer false and then true and leave the same pairs in the store and every other entry
  as it was, and the entry of the pair is a new one whose \<open>createdAt\<close> is the time of the
  second commit. Where every time stamp of the store lies before its clock, that
  \<open>createdAt\<close> is later than the one the entry had; and every store reached from the
  empty one by toggle and list requests is such a store.
\<close>

theorem toggle_twice:
  assumes "asksToggle req u c" and "commits a1" and "commits a2"
  shows "(map_of (docs s) (u, c) = None \<longrightarrow>
            fst (toggleFavorite a1 req s) = reply 200 ''Added to favorites'' (Favorited True) \<and>
            fst (toggleFavorite a2 req (snd (toggleFavorite a1 req s))) =
              reply 200 ''Removed from favorites'' (Favorited False) \<and>
            docs (snd (toggleFavorite a2 req (snd (toggleFavorite a1 req s)))) = docs s) \<and>
         (map_of (docs s) (u, c) \<noteq> None \<longrightarrow>
            fst (toggleFavorite a1 req s) = reply 200 ''Removed from favorites'' (Favorited False) \<and>
            fst (toggleFavorite a2 req (snd (toggleFavorite a1 req s))) =
              reply 200 ''Added to favorites'' (Favorited True) \<and>
            dom (map_of (docs (snd (toggleFavorite a2 req (snd (toggleFavorite a1 req s)))))) =
              dom (map_of (docs s)) \<and>
            map_of (docs (snd (toggleFavorite a2 req (snd (toggleFavorite a1 req s))))) =
              (map_of (docs s))((u, c) \<mapsto> \<lparr>coinId = c, createdAt = Suc (clock s)\<rparr>)) \<and>
         (map_of (docs s) (u, c) = Some f \<and> stamped s \<longrightarrow>
            (\<exists>g. map_of (docs (snd (toggleFavorite a2 req (snd (toggleFavorite a1 req s)))))
                   (u, c) = Some g \<and> createdAt f < createdAt g)) \<and>
         stamped (fold step ops emptyStore)"
proof -
  have twice: "(map_of (docs s) (u, c) = None \<longrightarrow>
            fst (toggleFavorite a1 req s) = reply 200 ''Added to favorites'' (Favorited True) \<and>
            fst (toggleFavorite a2 req (snd (toggleFavorite a1 req s))) =
              reply 200 ''Removed from favorites'' (Favorited False) \<and>
            docs (snd (toggleFavorite a2 req (snd (toggleFavorite a1 req s)))) = docs s) \<and>
         (map_of (docs s) (u, c) \<noteq> None \<longrightarrow>
            fst (toggleFavorite a1 req s) = reply 200 ''Removed from favorites'' (Favorited False) \<and>
            fst (toggleFavorite a2 req (snd (toggleFavorite a1 req s))) =
              reply 200 ''Added to favorites'' (Favorited True) \<and>
            dom (map_of (docs (snd (toggleFavorite a2 req (snd (toggleFavorite a1 req s)))))) =
              dom (map_of (docs s)) \<and>
            map_of (docs (snd (toggleFavorite a2 req (snd (toggleFavorite a1 req s))))) =
              (map_of (docs s))((u, c) \<mapsto> \<lparr>coinId = c, createdAt = Suc (clock s)\<rparr>))"
  proof (cases "map_of (docs s) (u, c)")
  case None
  let ?s1 = "\<lparr>docs = AList.update (u, c) \<lparr>coinId = c, createdAt = clock s\<rparr> (docs s),
              clock = Suc (clock s)\<rparr>"
  have one: "toggleFavorite a1 req s = (reply 200 ''Added to favorites'' (Favorited True), ?s1)"
    using assms None by (simp add: toggle_absent)
  have "map_of (docs ?s1) (u, c) = Some \<lparr>coinId = c, createdAt = clock s\<rparr>"
    by (simp add: update_conv')
  then have two: "toggleFavorite a2 req ?s1 =
      (reply 200 ''Removed from favorites'' (Favorited False),
       \<lparr>docs = AList.delete (u, c) (docs ?s1), clock = Suc (clock ?s1)\<rparr>)"
    using assms by (rule_tac toggle_present) simp_all
  have "(u, c) \<notin> fst ` set (docs s)"
    using None by (simp add: map_of_eq_None_iff)
  then have "AList.delete (u, c) (docs ?s1) = docs s"
    by (simp add: delete_update_same)
  with None one two show ?thesis
    by simp
next
  case (Some f)
  let ?s1 = "\<lparr>docs = AList.delete (u, c) (docs s), clock = Suc (clock s)\<rparr>"
  have one: "toggleFavorite a1 req s =
      (reply 200 ''Removed from favorites'' (Favorited False), ?s1)"
    using assms Some by (simp add: toggle_present)
  have "map_of (docs ?s1) (u, c) = None"
    by (simp add: delete_conv')
  then have two: "toggleFavorite a2 req ?s1 =
      (reply 200 ''Added to favorites'' (Favorited True),
       \<lparr>docs = AList.update (u, c) \<lparr>coinId = c, createdAt = clock ?s1\<rparr> (docs ?s1),
        clock = Suc (clock ?s1)\<rparr>)"
    using assms by (rule_tac toggle_absent) simp_all
  have "map_of (AList.update (u, c) \<lparr>coinId = c, createdAt = Suc (clock s)\<rparr>
          (AList.delete (u, c) (docs s))) =
        (map_of (docs s))((u, c) \<mapsto> \<lparr>coinId = c, createdAt = Suc (clock s)\<rparr>)"
    by (simp add: update_conv' delete_conv')
  moreover have "(u, c) \<in> dom (map_of (docs s))"
    using Some by blast
  ultimately show ?thesis
    using Some one two by (simp add: insert_absorb)
  qed
  have later: "\<exists>g. map_of (docs (snd (toggleFavorite a2 req (snd (toggleFavorite a1 req s)))))
                   (u, c) = Some g \<and> createdAt f < createdAt g"
    if "map_of (docs s) (u, c) = Some f \<and> stamped s"
  proof -
    have "createdAt f < clock s"
      using that stamped_lookup [of s "(u, c)" f] by blast
    moreover have "map_of (docs (snd (toggleFavorite a2 req (snd (toggleFavorite a1 req s)))))
        (u, c) = Some \<lparr>coinId = c, createdAt = Suc (clock s)\<rparr>"
      using twice that by simp
    ultimately show ?thesis
      by simp
  qed
  have "stamped emptyStore"
    by (simp add: stamped_def emptyStore_def)
  then have "stamped (fold step ops emptyStore)"
    by (rule fold_step_keeps_stamped)
  with twice later show ?thesis
    by blast
qed

theorem toggle_twice_witness:
  "asksToggle (toggleRequest ''user1'' ''bitcoin'') ''user1'' ''bitcoin'' \<and> commits [Commits] \<and>
   map_of (docs emptyStore) (''user1'', ''bitcoin'') = None \<and>
   fst (toggleFavorite [Commits] (toggleRequest ''user1'' ''bitcoin'') emptyStore) =
     reply 200 ''Added to favorites'' (Favorited True) \<and>
   fst (toggleFavorite [Commits] (toggleRequest ''user1'' ''bitcoin'')
     (snd (toggleFavorite [Commits] (toggleRequest ''user1'' ''bitcoin'') emptyStore))) =
     reply 200 ''Removed from favorites'' (Favorited False) \<and>
   docs (snd (toggleFavorite [Commits] (toggleRequest ''user1'' ''bitcoin'')
     (snd (toggleFavorite [Commits] (toggleRequest ''user1'' ''bitcoin'') emptyStore)))) =
     docs emptyStore \<and>
   map_of (docs twoFavorites) (''user1'', ''bitcoin'') \<noteq> None \<and>
   fst (toggleFavorite [Commits] (toggleRequest ''user1'' ''bitcoin'') twoFavorites) =
     reply 200 ''Removed from favorites'' (Favorited False) \<and>
   fst (toggleFavorite [Commits] (toggleRequest ''user1'' ''bitcoin'')
     (snd (toggleFavorite [Commits] (toggleRequest ''user1'' ''bitcoin'') twoFavorites))) =
     reply 200 ''Added to favorites'' (Favorited True) \<and>
   dom (map_of (docs (snd (toggleFavorite [Commits] (toggleRequest ''user1'' ''bitcoin'')
     (snd (toggleFavorite [Commits] (toggleRequest ''user1'' ''bitcoin'') twoFavorites)))))) =
     dom (map_of (docs twoFavorites)) \<and>
   map_of (docs twoFavorites) (''user1'', ''bitcoin'') =
     Some \<lparr>coinId = ''bitcoin'', createdAt = 0\<rparr> \<and>
   stamped twoFavorites \<and>
   (\<exists>g. map_of (docs (snd (toggleFavorite [Commits] (toggleRequest ''user1'' ''bitcoin'')
     (snd (toggleFavorite [Commits] (toggleRequest ''user1'' ''bitcoin'') twoFavorites)))))
       (''user1'', ''bitcoin'') = Some g \<and>
      createdAt \<lparr>coinId = ''bitcoin'', createdAt = 0\<rparr> < createdAt g)"
proof -
  have a: "asksToggle (toggleRequest ''user1'' ''bitcoin'') ''user1'' ''bitcoin''"
    by (simp add: request_eval string_eval)
  have c: "commits [Commits]"
    by simp
  have e: "map_of (docs emptyStore) (''user1'', ''bitcoin'') = None"
    by (simp add: emptyStore_def)
  have p: "map_of (docs twoFavorites) (''user1'', ''bitcoin'') \<noteq> None"
    by (simp add: twoFavorites_eval)
  have m: "map_of (docs twoFavorites) (''user1'', ''bitcoin'') =
      Some \<lparr>coinId = ''bitcoin'', createdAt = 0\<rparr>"
    by (simp add: twoFavorites_eval)
  have t: "stamped twoFavorites"
    by (simp add: stamped_def twoFavorites_eval)
  note fresh = toggle_twice [OF a c c, where s = emptyStore, THEN conjunct1, rule_format, OF e]
  note held = toggle_twice [OF a c c, where s = twoFavorites, THEN conjunct2, THEN conjunct1,
      rule_format, OF p]
  note later = toggle_twice [OF a c c, where s = twoFavorites, THEN conjunct2, THEN conjunct2,
      THEN conjunct1, rule_format, OF conjI, OF m t]
  show ?thesis
    by (intro conjI a c e p m t later fresh [THEN conjunct1]
        fresh [THEN conjunct2, THEN conjunct1]
        fresh [THEN conjunct2, THEN conjunct2] held [THEN conjunct1]
        held [THEN conjunct2, THEN conjunct1]
        held [THEN conjunct2, THEN conjunct2, THEN conjunct1])
qed

section \<open>One entry for each pair\<close>

text \<open>
  Claim C4. Every toggle and every list request keeps the invariant that the store holds
  at most one document for a pair of user and coin; it holds in every store reached from
  the empty one by a sequence of such requests, and a list answered there names no coin
  twice.
\<close>

theorem one_entry_per_pair:
  "(atMostOnePerPair s \<longrightarrow> atMostOnePerPair (step op s)) \<and>
   atMostOnePerPair (fold step ops emptyStore) \<and>
   (asksList req u \<longrightarrow>
      (\<exists>cs. getFavorites True req (fold step ops emptyStore) =
               Inr (reply 200 ''Favorites fetched successfully'' (Favorites cs)) \<and> distinct cs))"
proof (intro conjI impI)
  assume "atMostOnePerPair s"
  then show "atMostOnePerPair (step op s)"
    by (rule step_keeps_invariant)
next
  have "atMostOnePerPair emptyStore"
    by (simp add: atMostOnePerPair_def emptyStore_def)
  then show reach: "atMostOnePerPair (fold step ops emptyStore)"
    by (rule fold_step_keeps_invariant)
  assume "asksList req u"
  then have "getFavorites True req (fold step ops emptyStore) =
      Inr (reply 200 ''Favorites fetched successfully''
        (Favorites (map fst (orderByCreatedAtDesc (favoritesOf (fold step ops emptyStore) u)))))"
    by (simp add: getFavorites_asks)
  with reach show "\<exists>cs. getFavorites True req (fold step ops emptyStore) =
      Inr (reply 200 ''Favorites fetched successfully'' (Favorites cs)) \<and> distinct cs"
    using listing_distinct by blast
qed

theorem one_entry_per_pair_witness:
  "atMostOnePerPair twoFavorites \<and>
   atMostOnePerPair (step (Toggle [Commits] (toggleRequest ''user1'' ''solana'')) twoFavorites) \<and>
   asksList (listRequest ''user1'') ''user1'' \<and>
   (\<exists>cs. getFavorites True (listRequest ''user1'')
            (fold step [Toggle [Commits] (toggleRequest ''user1'' ''bitcoin''),
                        List True (listRequest ''user1''),
                        Toggle [Commits] (toggleRequest ''user1'' ''bitcoin''),
                        Toggle [Commits] (toggleRequest ''user1'' ''bitcoin'')] emptyStore) =
            Inr (reply 200 ''Favorites fetched successfully'' (Favorites cs)) \<and> distinct cs)"
proof -
  have i: "atMostOnePerPair twoFavorites"
    by (simp add: atMostOnePerPair_def twoFavorites_eval)
  have l: "asksList (listRequest ''user1'') ''user1''"
    by (simp add: request_eval string_eval)
  show ?thesis
    by (intro conjI i l one_entry_per_pair [THEN conjunct1, rule_format, OF i]
        one_entry_per_pair [THEN conjunct2, THEN conjunct2, rule_format, OF l])
qed

section \<open>Validation before the store\<close>

text \<open>
  Claim C6, as stated, fails for a coin identifier that does not match the lower-case
  pattern itself but does after the handler has trimmed and lower-cased it: the toggle
  request with \<open>coinId = "BTC"\<close> is answered 200 and the store gets the entry of
  \<open>btc\<close>.
\<close>

theorem uppercase_coin_counterexample:
  "\<not> re_coinId ''BTC'' \<and>
   toggleFavorite [Commits] (toggleRequest ''user1'' ''BTC'') emptyStore =
     (reply 200 ''Added to favorites'' (Favorited True),
      \<lparr>docs = [((''user1'', ''btc''), \<lparr>coinId = ''btc'', createdAt = 0\<rparr>)], clock = 1\<rparr>)"
  by (simp add: handler_eval request_eval string_eval store_eval)

text \<open>
  Claim C6, amended. A POST request to the toggle whose user identifier, trimmed (and
  taken as empty when it is not a string), fails the user pattern, or whose coin
  identifier, trimmed and lower-cased, fails the coin pattern, is answered 400 with no
  data, whatever the store holds and whatever it would do with a transaction, and the
  store stays as it is. A GET or POST request to the list whose user identifier has a
  conversion to a string that, trimmed, fails the user pattern is answered 400 with no
  data, whatever the store holds and whether or not it can be reached. A list request
  whose user identifier has no conversion to a string is not covered.
\<close>

theorem invalid_identifier_rejected:
  "(method req = ''POST'' \<and>
    (\<not> re_userId (trim (stringOrEmpty (bodyOrEmpty req ''userId''))) \<or>
     \<not> re_coinId (toLowerCase (trim (stringOrEmpty (bodyOrEmpty req ''coinId''))))) \<longrightarrow>
      toggleFavorite atts req s =
        (reply 400
           (''Invalid or missing '' @
            quoted (if re_userId (trim (stringOrEmpty (bodyOrEmpty req ''userId'')))
                    then ''coinId'' else ''userId'')) Null, s)) \<and>
   ((method req = ''GET'' \<and> orDefault (query req ''userId'') [] = Inr raw \<or>
     method req = ''POST'' \<and> orDefault (bodyOrEmpty req ''userId'') [] = Inr raw) \<and>
    \<not> re_userId (trim raw) \<longrightarrow>
      getFavorites up req s = Inr (reply 400 (''Invalid or missing '' @ quoted ''userId'') Null))"
  using not_re_userId_Nil not_re_coinId_Nil
  by (auto simp: toggleFavorite_def getFavorites_def Let_def)

theorem invalid_identifier_rejected_witness:
  "\<not> re_coinId (toLowerCase (trim ''AB!'')) \<and>
   toggleFavorite [Commits] (toggleRequest ''user1'' ''AB!'') twoFavorites =
     (reply 400 (''Invalid or missing '' @ quoted ''coinId'') Null, twoFavorites) \<and>
   \<not> re_userId (trim []) \<and>
   toggleFavorite [Commits] (toggleRequest [] ''bitcoin'') twoFavorites =
     (reply 400 (''Invalid or missing '' @ quoted ''userId'') Null, twoFavorites) \<and>
   orDefault (query (listRequest []) ''userId'') [] = Inr [] \<and>
   getFavorites True (listRequest []) twoFavorites =
     Inr (reply 400 (''Invalid or missing '' @ quoted ''userId'') Null) \<and>
   orDefault (bodyOrEmpty (toggleRequest ''a b'' ''bitcoin'') ''userId'') [] = Inr ''a b'' \<and>
   \<not> re_userId (trim ''a b'') \<and>
   getFavorites False (toggleRequest ''a b'' ''bitcoin'') emptyStore =
     Inr (reply 400 (''Invalid or missing '' @ quoted ''userId'') Null)"
proof -
  have c: "\<not> re_coinId (toLowerCase (trim ''AB!''))" and u: "\<not> re_userId (trim [])"
    by (simp_all add: string_eval)
  have "toggleFavorite [Commits] (toggleRequest ''user1'' ''AB!'') twoFavorites =
     (reply 400 (''Invalid or missing '' @ quoted ''coinId'') Null, twoFavorites)"
    using invalid_identifier_rejected [of "toggleRequest ''user1'' ''AB!''" "[Commits]" twoFavorites]
    by (simp add: request_eval string_eval)
  moreover have "toggleFavorite [Commits] (toggleRequest [] ''bitcoin'') twoFavorites =
     (reply 400 (''Invalid or missing '' @ quoted ''userId'') Null, twoFavorites)"
    using invalid_identifier_rejected [of "toggleRequest [] ''bitcoin''" "[Commits]" twoFavorites]
    by (simp add: request_eval string_eval)
  moreover have g: "orDefault (query (listRequest []) ''userId'') [] = Inr []"
    by (simp add: request_eval)
  moreover have "getFavorites True (listRequest []) twoFavorites =
     Inr (reply 400 (''Invalid or missing '' @ quoted ''userId'') Null)"
    using g u invalid_identifier_rejected [THEN conjunct2, rule_format,
        of "listRequest []" "[]" True twoFavorites]
    by (simp add: listRequest_def)
  moreover have p: "orDefault (bodyOrEmpty (toggleRequest ''a b'' ''bitcoin'') ''userId'') [] =
      Inr ''a b''"
    by (simp add: request_eval)
  moreover have q: "\<not> re_userId (trim ''a b'')"
    by (simp add: string_eval)
  moreover have "getFavorites False (toggleRequest ''a b'' ''bitcoin'') emptyStore =
     Inr (reply 400 (''Invalid or missing '' @ quoted ''userId'') Null)"
    using p q invalid_identifier_rejected [THEN conjunct2, rule_format,
        of "toggleRequest ''a b'' ''bitcoin''" "''a b''" False emptyStore]
    by (simp add: toggleRequest_def)
  ultimately show ?thesis
    using c u by simp
qed

text \<open>The list request left out above: \<^verbatim>\<open>String(userIdRaw)\<close> throws before the
  \<^verbatim>\<open>try\<close> block is entered, and the handler sends no envelope.\<close>

lemma getFavorites_unprintable:
  "getFavorites up
     \<lparr>method = ''POST'', query = Map.empty, body = Some [''userId'' \<mapsto> JUnprintable]\<rparr> s =
   Inl TypeError"
  by (simp add: getFavorites_def bodyOrEmpty_def orDefault_def truthy_def String_def)

section \<open>The upstream answers\<close>

text \<open>
  Claim C8. When the request to the coin or to the market handler passes its checks and
  the upstream answers with a status outside 200 to 299, the handler answers with that
  status, in the response and in the envelope, and with the body of the upstream as
  \<open>data.error\<close>. The example after it is the upstream 404 with the body
  \<open>{"error":"not found"}\<close> on the coin handler.
\<close>

theorem upstream_error_passed_through:
  "(method req = ''POST'' \<and> toLowerCase (trim (stringOrEmpty (bodyOrEmpty req ''id''))) = i \<and>
    re_coinId i \<and> fetch (coinUrl i) = Responds st text parsed \<and> \<not> ok st \<longrightarrow>
      getCoin fetch req = reply st ''Upstream CoinGecko error'' (UpstreamError text)) \<and>
   (method req = ''GET'' \<and> orDefault (query req ''currency'') ''usd'' = Inr raw \<and>
    toLowerCase raw = cur \<and> re_currency cur \<and> fetch (marketsUrl cur) = Responds st text parsed \<and> \<not> ok st \<longrightarrow>
      getMarkets fetch req = Inr (reply st ''Upstream CoinGecko error'' (UpstreamError text)))"
  by (auto simp: getCoin_def getMarkets_def Let_def coinFetched_def marketsFetched_def
      re_coinId_def)


theorem upstream_error_passed_through_witness:
  \<open>re_coinId ''bitcoin'' \<and> \<not> ok 404 \<and>
   getCoin (answering ''https://api.coingecko.com/api/v3/coins/bitcoin'' 404
       ''{"error":"not found"}'') (coinRequest ''bitcoin'') =
     \<lparr>headers = setCorsHeaders, code_sent = 404,
      sent = Json \<lparr>status = 404, message = ''Upstream CoinGecko error'',
                   data = UpstreamError ''{"error":"not found"}''\<rparr>\<rparr>\<close>
proof -
  have a: "method (coinRequest ''bitcoin'') = ''POST'' \<and>
      toLowerCase (trim (stringOrEmpty (bodyOrEmpty (coinRequest ''bitcoin'') ''id''))) = ''bitcoin'' \<and>
      re_coinId ''bitcoin''"
    by (simp add: request_eval string_eval)
  have b: \<open>answering ''https://api.coingecko.com/api/v3/coins/bitcoin'' 404 ''{"error":"not found"}''
      (coinUrl ''bitcoin'') = Responds 404 ''{"error":"not found"}'' None\<close>
    by (simp add: proxy_eval string_eval)
  have c: "\<not> ok 404"
    by (simp add: ok_def)
  show ?thesis
    using a b c
      upstream_error_passed_through [THEN conjunct1, rule_format, of "coinRequest ''bitcoin''"
        "''bitcoin''" _ 404 _ None]
    by (simp add: reply_def)
qed

section \<open>Normalisation of what the client sends\<close>

lemma body_upd [simp]: "bodyOrEmpty (req\<lparr>body := Some b\<rparr>) = b"
  by (simp add: bodyOrEmpty_def)

text \<open>
  Claim C9. When the trimmed, lower-cased form of a string passes the coin pattern, the
  toggle and the coin handler answer a request carrying the string exactly as they answer
  the request carrying the normalised form; the toggle does not answer 400 when the user
  identifier is well-formed, and the coin handler fetches the address of the normalised
  form.
\<close>

theorem coin_id_normalised:
  assumes "re_coinId (toLowerCase (trim x))"
  shows "toggleFavorite atts (req\<lparr>body := Some (b(''coinId'' \<mapsto> JStr x))\<rparr>) s =
           toggleFavorite atts
             (req\<lparr>body := Some (b(''coinId'' \<mapsto> JStr (toLowerCase (trim x))))\<rparr>) s \<and>
         getCoin fetch (req\<lparr>body := Some (b(''id'' \<mapsto> JStr x))\<rparr>) =
           getCoin fetch (req\<lparr>body := Some (b(''id'' \<mapsto> JStr (toLowerCase (trim x))))\<rparr>) \<and>
         (method req = ''POST'' \<and> re_userId (trim (stringOrEmpty (b ''userId''))) \<longrightarrow>
            code_sent (fst (toggleFavorite atts (req\<lparr>body := Some (b(''coinId'' \<mapsto> JStr x))\<rparr>) s))
              \<in> {200, 500}) \<and>
         (method req = ''POST'' \<longrightarrow>
            getCoin fetch (req\<lparr>body := Some (b(''id'' \<mapsto> JStr x))\<rparr>) =
              coinFetched (fetch (coinUrl (toLowerCase (trim x)))))"
proof -
  have n: "toLowerCase (trim (toLowerCase (trim x))) = toLowerCase (trim x)"
    using assms by (simp add: trim_coinId lower_coinId)
  have ne: "toLowerCase (trim x) \<noteq> []"
    using assms not_re_coinId_Nil by auto
  have 1: "toggleFavorite atts (req\<lparr>body := Some (b(''coinId'' \<mapsto> JStr x))\<rparr>) s =
           toggleFavorite atts
             (req\<lparr>body := Some (b(''coinId'' \<mapsto> JStr (toLowerCase (trim x))))\<rparr>) s"
    by (simp add: toggleFavorite_def Let_def stringOrEmpty_def n)
  have 2: "getCoin fetch (req\<lparr>body := Some (b(''id'' \<mapsto> JStr x))\<rparr>) =
           getCoin fetch (req\<lparr>body := Some (b(''id'' \<mapsto> JStr (toLowerCase (trim x))))\<rparr>)"
    by (simp add: getCoin_def Let_def stringOrEmpty_def n)
  have 3: "code_sent (fst (toggleFavorite atts (req\<lparr>body := Some (b(''coinId'' \<mapsto> JStr x))\<rparr>) s))
              \<in> {200, 500}"
    if "method req = ''POST'' \<and> re_userId (trim (stringOrEmpty (b ''userId'')))"
  proof -
    have "asksToggle (req\<lparr>body := Some (b(''coinId'' \<mapsto> JStr x))\<rparr>)
            (trim (stringOrEmpty (b ''userId''))) (toLowerCase (trim x))"
      using that assms by (simp add: asksToggle_def stringOrEmpty_def)
    then show ?thesis
      by (cases "commits atts")
        (simp_all add: toggleFavorite_asks runTransaction_commits runTransaction_fails reply_def)
  qed
  have 4: "getCoin fetch (req\<lparr>body := Some (b(''id'' \<mapsto> JStr x))\<rparr>) =
              coinFetched (fetch (coinUrl (toLowerCase (trim x))))"
    if "method req = ''POST''"
    using that assms ne by (simp add: getCoin_def Let_def stringOrEmpty_def)
  from 1 2 3 4 show ?thesis
    by blast
qed


theorem coin_id_normalised_witness:
  "re_coinId (toLowerCase (trim '' Bitcoin'')) \<and>
   toggleFavorite [Commits] (toggleRequest ''user1'' '' Bitcoin'') emptyStore =
     toggleFavorite [Commits] (toggleRequest ''user1'' ''bitcoin'') emptyStore \<and>
   toggleFavorite [Commits] (toggleRequest ''user1'' '' Bitcoin'') emptyStore =
     (reply 200 ''Added to favorites'' (Favorited True),
      \<lparr>docs = [((''user1'', ''bitcoin''), \<lparr>coinId = ''bitcoin'', createdAt = 0\<rparr>)],
       clock = 1\<rparr>)"
proof -
  have n: "toLowerCase (trim '' Bitcoin'') = ''bitcoin''"
    by (simp add: string_eval)
  have h: "re_coinId (toLowerCase (trim '' Bitcoin''))"
    by (simp add: string_eval)
  have "toggleFavorite [Commits] (toggleRequest ''user1'' '' Bitcoin'') emptyStore =
     toggleFavorite [Commits] (toggleRequest ''user1'' ''bitcoin'') emptyStore"
    using coin_id_normalised [where x = "'' Bitcoin''" and atts = "[Commits]"
        and req = "\<lparr>method = ''POST'', query = Map.empty, body = None\<rparr>"
        and b = "[''userId'' \<mapsto> JStr ''user1'']" and s = emptyStore, OF h, THEN conjunct1]
    by (simp add: toggleRequest_def n)
  moreover have "toggleFavorite [Commits] (toggleRequest ''user1'' ''bitcoin'') emptyStore =
     (reply 200 ''Added to favorites'' (Favorited True),
      \<lparr>docs = [((''user1'', ''bitcoin''), \<lparr>coinId = ''bitcoin'', createdAt = 0\<rparr>)],
       clock = 1\<rparr>)"
    by (simp add: handler_eval request_eval string_eval store_eval)
  ultimately show ?thesis
    using h by simp
qed

lemma usd_passes: "toLowerCase ''usd'' = ''usd''" "re_currency ''usd''"
  "marketsUrl ''usd'' = ''https://api.coingecko.com/api/v3/coins/markets?vs_currency=usd''"
  by (simp_all add: string_eval proxy_eval)

text \<open>
  Claim C10. A GET request to the market handler without a \<open>currency\<close>, or with the empty
  one, is answered as the request with \<open>currency = usd\<close> is: by what the fetch of the
  address for \<open>usd\<close> gives. A currency that is supplied is lower-cased, and the
  lower-cased form is what is tested against the pattern and fetched.
\<close>

theorem currency_defaults_to_usd:
  "(method req = ''GET'' \<and>
    (query req ''currency'' = None \<or> query req ''currency'' = Some (JStr [])) \<longrightarrow>
      getMarkets fetch req =
        Inr (marketsFetched (fetch ''https://api.coingecko.com/api/v3/coins/markets?vs_currency=usd'')) \<and>
      getMarkets fetch req =
        getMarkets fetch (req\<lparr>query := (query req)(''currency'' \<mapsto> JStr ''usd'')\<rparr>)) \<and>
   (method req = ''GET'' \<and> query req ''currency'' = Some (JStr x) \<and> x \<noteq> [] \<longrightarrow>
      getMarkets fetch req =
        (if re_currency (toLowerCase x) then Inr (marketsFetched (fetch (marketsUrl (toLowerCase x))))
         else Inr (reply 400 ''Invalid currency parameter'' Null)))"
proof (intro conjI impI)
  assume a: "method req = ''GET'' \<and>
    (query req ''currency'' = None \<or> query req ''currency'' = Some (JStr []))"
  then have d: "orDefault (query req ''currency'') ''usd'' = Inr ''usd''"
    by (auto simp: orDefault_def truthy_def)
  have e: "orDefault (Some (JStr ''usd'')) ''usd'' = Inr ''usd''"
    by (simp add: orDefault_def truthy_def String_def)
  from a d show "getMarkets fetch req =
      Inr (marketsFetched (fetch ''https://api.coingecko.com/api/v3/coins/markets?vs_currency=usd''))"
    by (simp add: getMarkets_def Let_def usd_passes)
  from a d e show "getMarkets fetch req =
      getMarkets fetch (req\<lparr>query := (query req)(''currency'' \<mapsto> JStr ''usd'')\<rparr>)"
    by (simp add: getMarkets_def Let_def usd_passes)
next
  assume "method req = ''GET'' \<and> query req ''currency'' = Some (JStr x) \<and> x \<noteq> []"
  then show "getMarkets fetch req =
        (if re_currency (toLowerCase x) then Inr (marketsFetched (fetch (marketsUrl (toLowerCase x))))
         else Inr (reply 400 ''Invalid currency parameter'' Null))"
    by (simp add: getMarkets_def Let_def orDefault_def truthy_def String_def)
qed

theorem currency_defaults_to_usd_witness:
  "getMarkets
     (answering ''https://api.coingecko.com/api/v3/coins/markets?vs_currency=usd'' 503 ''busy'')
     (getRequest Map.empty) = Inr (reply 503 ''Upstream CoinGecko error'' (UpstreamError ''busy'')) \<and>
   getMarkets
     (answering ''https://api.coingecko.com/api/v3/coins/markets?vs_currency=usd'' 503 ''busy'')
     (getRequest [''currency'' \<mapsto> JStr []]) =
     Inr (reply 503 ''Upstream CoinGecko error'' (UpstreamError ''busy'')) \<and>
   getMarkets
     (answering ''https://api.coingecko.com/api/v3/coins/markets?vs_currency=eur'' 503 ''busy'')
     (getRequest [''currency'' \<mapsto> JStr ''EUR'']) =
     Inr (reply 503 ''Upstream CoinGecko error'' (UpstreamError ''busy''))"
proof -
  have "getMarkets
     (answering ''https://api.coingecko.com/api/v3/coins/markets?vs_currency=usd'' 503 ''busy'')
     (getRequest Map.empty) = Inr (reply 503 ''Upstream CoinGecko error'' (UpstreamError ''busy''))"
    using currency_defaults_to_usd [THEN conjunct1, rule_format, THEN conjunct1,
        of "getRequest Map.empty"]
    by (simp add: getRequest_def answering_def marketsFetched_def ok_def)
  moreover have "getMarkets
     (answering ''https://api.coingecko.com/api/v3/coins/markets?vs_currency=usd'' 503 ''busy'')
     (getRequest [''currency'' \<mapsto> JStr []]) =
     Inr (reply 503 ''Upstream CoinGecko error'' (UpstreamError ''busy''))"
    using currency_defaults_to_usd [THEN conjunct1, rule_format, THEN conjunct1,
        of "getRequest [''currency'' \<mapsto> JStr []]"]
    by (simp add: getRequest_def answering_def marketsFetched_def ok_def)
  moreover have "getMarkets
     (answering ''https://api.coingecko.com/api/v3/coins/markets?vs_currency=eur'' 503 ''busy'')
     (getRequest [''currency'' \<mapsto> JStr ''EUR'']) =
     Inr (reply 503 ''Upstream CoinGecko error'' (UpstreamError ''busy''))"
    using currency_defaults_to_usd [THEN conjunct2, rule_format,
        of "getRequest [''currency'' \<mapsto> JStr ''EUR'']" "''EUR''"]
    by (simp add: proxy_eval string_eval)
  ultimately show ?thesis
    by simp
qed

end
